theory Spec2Isabelle
  imports Main
begin

section \<open>Data model\<close>

text \<open>
  \<^verbatim>\<open>interface UserInfo { displayName, email, photoURL : string | null }\<close>.
  The identity provider's \<^verbatim>\<open>User\<close> object carries the same three fields and a
  \<^verbatim>\<open>uid\<close>; only these four are read by the manager.
\<close>

record UserInfo =
  displayName :: "string option"
  email :: "string option"
  photoURL :: "string option"

record User = UserInfo +
  uid :: string

text \<open>A rejection of a provider call: the value a \<^verbatim>\<open>catch\<close> clause receives.\<close>

datatype error = FirebaseError string

text \<open>
  Modelled from the spec: the host controller \<^verbatim>\<open>ClineProvider\<close>
  (\<^verbatim>\<open>core/webview/ClineProvider\<close>) is imported by the manager and is not among the
  sources. Section 6 of the specification lists the four operations the manager consumes:
  \<^verbatim>\<open>getSecret(key)\<close> reads the persisted token, \<^verbatim>\<open>setAuthToken(v)\<close> writes or clears
  it, \<^verbatim>\<open>setUserInfo(v)\<close> writes or clears the profile in host state, and
  \<^verbatim>\<open>postStateToWebview()\<close> pushes the host state to the presentation layer. The
  specification gives none of them a failure, so they are total here.
\<close>

record ClineProvider =
  secrets :: "string \<rightharpoonup> string"
  userInfo :: "UserInfo option"
  posted :: nat

definition getSecret :: "string \<Rightarrow> ClineProvider \<Rightarrow> string option" where
  "getSecret key p = secrets p key"

definition setAuthToken :: "string option \<Rightarrow> ClineProvider \<Rightarrow> ClineProvider" where
  "setAuthToken v p = p\<lparr>secrets := (secrets p)(''authToken'' := v)\<rparr>"

definition setUserInfo :: "UserInfo option \<Rightarrow> ClineProvider \<Rightarrow> ClineProvider" where
  "setUserInfo v p = p\<lparr>userInfo := v\<rparr>"

definition postStateToWebview :: "ClineProvider \<Rightarrow> ClineProvider" where
  "postStateToWebview p = p\<lparr>posted := Suc (posted p)\<rparr>"

text \<open>
  Every call that leaves the manager, in the order it is made: console output, calls of
  the identity provider's SDK, calls of the host controller, and disposals. Console
  messages keep their text; the objects logged beside them are dropped, except the error a
  \<^verbatim>\<open>console.error\<close> reports.
\<close>

datatype effect =
    Console_log string
  | Console_error string error
  | Fb_initializeApp
  | Fb_setPersistence
  | Fb_onAuthStateChanged
  | Fb_signInWithCustomToken string
  | Fb_signOut
  | Host_getSecret string
  | Host_setAuthToken "string option"
  | Host_setUserInfo "UserInfo option"
  | Host_postStateToWebview
  | Disposable_dispose nat

text \<open>
  The manager and what it acts on.
  \<^item> \<open>providerRef\<close>: what \<^verbatim>\<open>this.providerRef.deref()\<close> yields, the host controller
    while it is alive and \<open>None\<close> once it has been collected;
  \<^item> \<open>currentUser\<close>: \<^verbatim>\<open>this.auth.currentUser\<close>;
  \<^item> \<open>authListener\<close>: whether \<^verbatim>\<open>handleAuthStateChange\<close> is subscribed to the
    provider's auth-state changes;
  \<^item> \<open>disposables\<close>: \<^verbatim>\<open>this.disposables\<close>, each disposable by an identifier;
  \<^item> \<open>effects\<close>: the calls made so far.
\<close>

record world =
  providerRef :: "ClineProvider option"
  currentUser :: "User option"
  authListener :: bool
  disposables :: "nat list"
  effects :: "effect list"

text \<open>
  The identity provider is a third-party SDK; what its calls answer is an input of the
  model. \<open>signIn_result\<close> is the outcome of \<^verbatim>\<open>signInWithCustomToken(auth, token)\<close>
  (the signed-in user, or the rejection), the three others are the rejection, if any, of
  \<^verbatim>\<open>initializeApp\<close>/\<^verbatim>\<open>getAuth\<close>, of \<^verbatim>\<open>setPersistence\<close> and of \<^verbatim>\<open>signOut\<close>;
  \<open>startup_user\<close> is the session the provider's own persistence has recovered when
  the manager is constructed.
\<close>

record firebase =
  initializeApp_error :: "error option"
  setPersistence_error :: "error option"
  startup_user :: "User option"
  signIn_result :: "string \<Rightarrow> error + User"
  signOut_error :: "error option"

section \<open>Operations\<close>

text \<open>
  Every \<^verbatim>\<open>async\<close> method is a function from the world to its outcome (\<open>Inl\<close> a
  rejection, \<open>Inr\<close> a normal return) and the world it leaves: the method run from its
  call to its completion, with nothing else running while it awaits. The event loop may run
  other code at an \<^verbatim>\<open>await\<close>; the section on the event loop cuts
  \<^verbatim>\<open>restoreSession\<close> and \<^verbatim>\<open>handleAuthStateChange\<close>, which no caller awaits, at
  their awaits.
\<close>

definition emit :: "effect \<Rightarrow> world \<Rightarrow> world" where
  "emit e w = w\<lparr>effects := effects w @ [e]\<rparr>"

text \<open>
  A call \<^verbatim>\<open>await provider.m(...)\<close> on the dereferenced host controller: the call is
  recorded and the host's state is updated by the method, at the call.
\<close>

definition provider_call :: "effect \<Rightarrow> (ClineProvider \<Rightarrow> ClineProvider) \<Rightarrow> world \<Rightarrow> world" where
  "provider_call e m w = emit e (w\<lparr>providerRef := map_option m (providerRef w)\<rparr>)"

text \<open>The object literal built from a provider user, at lines 63-67 and 110-114.\<close>

definition profile :: "User \<Rightarrow> UserInfo" where
  "profile u = \<lparr>displayName = displayName u, email = email u, photoURL = photoURL u\<rparr>"

text \<open>
  \<^verbatim>\<open>async signInWithCustomToken(token)\<close>: logs, then awaits the provider's sign-in; a
  rejection is the method's own rejection. A sign-in that succeeds makes the user the
  provider's current user.
\<close>

definition signInWithCustomToken :: "firebase \<Rightarrow> string \<Rightarrow> world \<Rightarrow> (error + unit) \<times> world" where
  "signInWithCustomToken fb token w =
     (let w1 = emit (Console_log ''Signing in with custom token'') w;
          w2 = emit (Fb_signInWithCustomToken token) w1
      in case signIn_result fb token of
           Inl e \<Rightarrow> (Inl e, w2)
         | Inr u \<Rightarrow> (Inr (), w2\<lparr>currentUser := Some u\<rparr>))"

text \<open>\<^verbatim>\<open>async signOut()\<close>: logs, then awaits the provider's sign-out.\<close>

definition signOut :: "firebase \<Rightarrow> world \<Rightarrow> (error + unit) \<times> world" where
  "signOut fb w =
     (let w1 = emit (Console_log ''Signing out'') w;
          w2 = emit Fb_signOut w1
      in case signOut_error fb of
           Some e \<Rightarrow> (Inl e, w2)
         | None \<Rightarrow> (Inr (), w2\<lparr>currentUser := None\<rparr>))"

text \<open>
  \<^verbatim>\<open>private async restoreSession()\<close>. The test \<^verbatim>\<open>if (storedToken)\<close> is JavaScript
  truthiness: an absent token and the empty string both take the \<^verbatim>\<open>else\<close> branch.
\<close>

definition restoreSession :: "firebase \<Rightarrow> world \<Rightarrow> (error + unit) \<times> world" where
  "restoreSession fb w =
     (let w1 = emit (Console_log ''Attempting to restore session'') w in
      case providerRef w1 of
        None \<Rightarrow>
          (Inr (), emit (Console_log ''Provider reference lost during session restore'') w1)
      | Some provider \<Rightarrow>
          (case currentUser w1 of
             Some cu \<Rightarrow>
               (let w2 = emit (Console_log ''Found existing Firebase session'') w1;
                    w3 = provider_call (Host_setUserInfo (Some (profile cu)))
                           (setUserInfo (Some (profile cu))) w2
                in (Inr (), emit (Console_log ''Existing session restored'') w3))
           | None \<Rightarrow>
               (let storedToken = getSecret ''authToken'' provider;
                    w2 = emit (Host_getSecret ''authToken'') w1;
                    noToken = (Inr (), emit (Console_log ''No stored custom token found'') w2)
                in case storedToken of
                     None \<Rightarrow> noToken
                   | Some token \<Rightarrow>
                       if token = [] then noToken
                       else
                         (let w3 = emit (Console_log
                                     ''Found stored custom token, attempting to restore session'') w2
                          in case signInWithCustomToken fb token w3 of
                               (Inr _, w4) \<Rightarrow>
                                 (Inr (), emit (Console_log
                                    ''Session restored successfully with custom token'') w4)
                             | (Inl err, w4) \<Rightarrow>
                                 (let w5 = emit (Console_error
                                             ''Failed to restore session with custom token:'' err) w4;
                                      w6 = provider_call (Host_setAuthToken None)
                                             (setAuthToken None) w5;
                                      w7 = provider_call (Host_setUserInfo None)
                                             (setUserInfo None) w6
                                  in case signOut fb w7 of
                                       (Inr _, w8) \<Rightarrow> (Inr (), w8)
                                     | (Inl signOutError, w8) \<Rightarrow>
                                         (Inr (), emit (Console_error
                                            ''Error during cleanup after failed session restore:''
                                            signOutError) w8))))))"

text \<open>\<^verbatim>\<open>getCurrentUser()\<close>.\<close>

definition getCurrentUser :: "world \<Rightarrow> User option" where
  "getCurrentUser w = currentUser w"

text \<open>\<^verbatim>\<open>private async handleAuthStateChange(user)\<close>, the callback given to the provider.\<close>

definition handleAuthStateChange :: "User option \<Rightarrow> world \<Rightarrow> (error + unit) \<times> world" where
  "handleAuthStateChange user w =
     (let w1 = emit (Console_log ''Auth state changed'') w in
      case providerRef w1 of
        None \<Rightarrow> (Inr (), emit (Console_log ''Provider reference lost'') w1)
      | Some provider \<Rightarrow>
          (let w4 =
                 (case user of
                    Some u \<Rightarrow>
                      (let w2 = emit (Console_log ''User signed in'') w1;
                           w3 = provider_call (Host_setUserInfo (Some (profile u)))
                                  (setUserInfo (Some (profile u))) w2
                       in emit (Console_log ''User info set in provider'') w3)
                  | None \<Rightarrow>
                      (let w2 = emit (Console_log ''User signed out'') w1;
                           w3 = provider_call (Host_setAuthToken None) (setAuthToken None) w2
                       in provider_call (Host_setUserInfo None) (setUserInfo None) w3));
               w5 = provider_call Host_postStateToWebview postStateToWebview w4
           in (Inr (), emit (Console_log ''Webview state updated'') w5)))"

text \<open>
  \<^verbatim>\<open>dispose()\<close>: disposes every element of \<^verbatim>\<open>this.disposables\<close>, then logs.
\<close>

definition dispose :: "world \<Rightarrow> world" where
  "dispose w =
     emit (Console_log ''Disposables disposed'')
       (foldl (\<lambda>v d. emit (Disposable_dispose d) v) w (disposables w))"

section \<open>The event loop\<close>

text \<open>
  \<^verbatim>\<open>restoreSession\<close> cut at its awaits. A point names the \<^verbatim>\<open>await\<close> at which the
  method is suspended: line 63 (\<^verbatim>\<open>setUserInfo\<close> of the current user), line 73
  (\<^verbatim>\<open>getSecret\<close>, with the token the host answers), line 77 (the sign-in, with the
  token), line 81 (\<^verbatim>\<open>setAuthToken(undefined)\<close>), line 82 (\<^verbatim>\<open>setUserInfo(undefined)\<close>)
  and line 85 (the sign-out).
\<close>

datatype restore_point =
    Restore_awaits_setUserInfo
  | Restore_awaits_getSecret "string option"
  | Restore_awaits_signIn string
  | Restore_awaits_setAuthToken
  | Restore_awaits_clearUserInfo
  | Restore_awaits_signOut
  | Restore_done

text \<open>From the call of \<^verbatim>\<open>restoreSession\<close> to its first \<^verbatim>\<open>await\<close>: this part is synchronous.\<close>

definition restore_start :: "world \<Rightarrow> restore_point \<times> world" where
  "restore_start w =
     (let w1 = emit (Console_log ''Attempting to restore session'') w in
      case providerRef w1 of
        None \<Rightarrow>
          (Restore_done,
           emit (Console_log ''Provider reference lost during session restore'') w1)
      | Some provider \<Rightarrow>
          (case currentUser w1 of
             Some cu \<Rightarrow>
               (let w2 = emit (Console_log ''Found existing Firebase session'') w1
                in (Restore_awaits_setUserInfo,
                    provider_call (Host_setUserInfo (Some (profile cu)))
                      (setUserInfo (Some (profile cu))) w2))
           | None \<Rightarrow>
               (Restore_awaits_getSecret (getSecret ''authToken'' provider),
                emit (Host_getSecret ''authToken'') w1)))"

text \<open>From one \<^verbatim>\<open>await\<close> of \<^verbatim>\<open>restoreSession\<close> to the next, or to its end.\<close>

fun restore_resume :: "firebase \<Rightarrow> restore_point \<Rightarrow> world \<Rightarrow> restore_point \<times> world" where
  "restore_resume fb Restore_awaits_setUserInfo w =
     (Restore_done, emit (Console_log ''Existing session restored'') w)"
| "restore_resume fb (Restore_awaits_getSecret storedToken) w =
     (let noToken = (Restore_done, emit (Console_log ''No stored custom token found'') w)
      in case storedToken of
           None \<Rightarrow> noToken
         | Some token \<Rightarrow>
             if token = [] then noToken
             else
               (let w1 = emit (Console_log
                           ''Found stored custom token, attempting to restore session'') w;
                    w2 = emit (Console_log ''Signing in with custom token'') w1
                in (Restore_awaits_signIn token, emit (Fb_signInWithCustomToken token) w2)))"
| "restore_resume fb (Restore_awaits_signIn token) w =
     (case signIn_result fb token of
        Inr u \<Rightarrow>
          (Restore_done,
           emit (Console_log ''Session restored successfully with custom token'')
             (w\<lparr>currentUser := Some u\<rparr>))
      | Inl err \<Rightarrow>
          (let w1 = emit (Console_error ''Failed to restore session with custom token:'' err) w
           in (Restore_awaits_setAuthToken,
               provider_call (Host_setAuthToken None) (setAuthToken None) w1)))"
| "restore_resume fb Restore_awaits_setAuthToken w =
     (Restore_awaits_clearUserInfo, provider_call (Host_setUserInfo None) (setUserInfo None) w)"
| "restore_resume fb Restore_awaits_clearUserInfo w =
     (Restore_awaits_signOut, emit Fb_signOut (emit (Console_log ''Signing out'') w))"
| "restore_resume fb Restore_awaits_signOut w =
     (case signOut_error fb of
        None \<Rightarrow> (Restore_done, w\<lparr>currentUser := None\<rparr>)
      | Some signOutError \<Rightarrow>
          (Restore_done,
           emit (Console_error ''Error during cleanup after failed session restore:''
                   signOutError) w))"
| "restore_resume fb Restore_done w = (Restore_done, w)"

fun restore_finish :: "firebase \<Rightarrow> nat \<Rightarrow> restore_point \<times> world \<Rightarrow> restore_point \<times> world" where
  "restore_finish fb 0 s = s"
| "restore_finish fb (Suc n) (p, w) = restore_finish fb n (restore_resume fb p w)"

text \<open>
  \<^verbatim>\<open>handleAuthStateChange\<close> cut at its awaits: line 110 (\<^verbatim>\<open>setUserInfo\<close> of the
  user), line 118 (\<^verbatim>\<open>setAuthToken(undefined)\<close>), line 119 (\<^verbatim>\<open>setUserInfo(undefined)\<close>)
  and line 121 (\<^verbatim>\<open>postStateToWebview\<close>).
\<close>

datatype callback_point =
    Callback_awaits_setUserInfo
  | Callback_awaits_setAuthToken
  | Callback_awaits_clearUserInfo
  | Callback_awaits_postStateToWebview
  | Callback_done

definition callback_start :: "User option \<Rightarrow> world \<Rightarrow> callback_point \<times> world" where
  "callback_start user w =
     (let w1 = emit (Console_log ''Auth state changed'') w in
      case providerRef w1 of
        None \<Rightarrow> (Callback_done, emit (Console_log ''Provider reference lost'') w1)
      | Some provider \<Rightarrow>
          (case user of
             Some u \<Rightarrow>
               (let w2 = emit (Console_log ''User signed in'') w1
                in (Callback_awaits_setUserInfo,
                    provider_call (Host_setUserInfo (Some (profile u)))
                      (setUserInfo (Some (profile u))) w2))
           | None \<Rightarrow>
               (let w2 = emit (Console_log ''User signed out'') w1
                in (Callback_awaits_setAuthToken,
                    provider_call (Host_setAuthToken None) (setAuthToken None) w2))))"

fun callback_resume :: "callback_point \<Rightarrow> world \<Rightarrow> callback_point \<times> world" where
  "callback_resume Callback_awaits_setUserInfo w =
     (Callback_awaits_postStateToWebview,
      provider_call Host_postStateToWebview postStateToWebview
        (emit (Console_log ''User info set in provider'') w))"
| "callback_resume Callback_awaits_setAuthToken w =
     (Callback_awaits_clearUserInfo,
      provider_call (Host_setUserInfo None) (setUserInfo None) w)"
| "callback_resume Callback_awaits_clearUserInfo w =
     (Callback_awaits_postStateToWebview,
      provider_call Host_postStateToWebview postStateToWebview w)"
| "callback_resume Callback_awaits_postStateToWebview w =
     (Callback_done, emit (Console_log ''Webview state updated'') w)"
| "callback_resume Callback_done w = (Callback_done, w)"

fun callback_finish :: "nat \<Rightarrow> callback_point \<times> world \<Rightarrow> callback_point \<times> world" where
  "callback_finish 0 s = s"
| "callback_finish (Suc n) (p, w) = callback_finish n (callback_resume p w)"

text \<open>
  What the event loop holds for the manager: the reaction attached to the promise of
  \<^verbatim>\<open>setPersistence\<close> (lines 36-41), a suspended \<^verbatim>\<open>restoreSession\<close>, and suspended
  invocations of the auth-state callback. A promise reaction never runs before the code
  that attached it has returned.
\<close>

datatype task =
    Persistence_reaction
  | Persistence_reacted
  | Restoring restore_point
  | Handling callback_point

fun resume :: "firebase \<Rightarrow> task \<Rightarrow> world \<Rightarrow> task \<times> world" where
  "resume fb Persistence_reaction w =
     (Persistence_reacted,
      case setPersistence_error fb of
        None \<Rightarrow> emit (Console_log ''Firebase persistence set to LOCAL'') w
      | Some e \<Rightarrow> emit (Console_error ''Error setting persistence:'' e) w)"
| "resume fb Persistence_reacted w = (Persistence_reacted, w)"
| "resume fb (Restoring p) w = (case restore_resume fb p w of (p', w') \<Rightarrow> (Restoring p', w'))"
| "resume fb (Handling p) w = (case callback_resume p w of (p', w') \<Rightarrow> (Handling p', w'))"


text \<open>
  The constructor, from \<^verbatim>\<open>new\<close> to its return: the world it leaves and, when it
  returns normally, the tasks it leaves to the event loop. A rejection of
  \<^verbatim>\<open>initializeApp\<close>/\<^verbatim>\<open>getAuth\<close> is not caught and leaves the constructor.
  \<^verbatim>\<open>setPersistence\<close> is called and its promise given a \<^verbatim>\<open>then\<close> and a \<^verbatim>\<open>catch\<close>
  handler, which run later. \<^verbatim>\<open>onAuthStateChanged\<close> returns an unsubscribe function
  that the constructor drops. \<^verbatim>\<open>this.restoreSession()\<close> is called and not awaited: it
  runs to its first \<^verbatim>\<open>await\<close> inside the constructor, and its outcome is not the
  constructor's.
\<close>

definition new_FirebaseAuthManager ::
  "firebase \<Rightarrow> ClineProvider \<Rightarrow> (error + task list) \<times> world" where
  "new_FirebaseAuthManager fb provider =
     (let w0 = \<lparr>providerRef = Some provider, currentUser = None, authListener = False,
                disposables = [], effects = [Console_log ''Initializing FirebaseAuthManager'']\<rparr>;
          w1 = emit Fb_initializeApp w0
      in case initializeApp_error fb of
           Some e \<Rightarrow> (Inl e, w1)
         | None \<Rightarrow>
             (let w2 = emit (Console_log ''Firebase app initialized'')
                         (w1\<lparr>currentUser := startup_user fb\<rparr>);
                  w3 = emit Fb_setPersistence w2;
                  w4 = emit Fb_onAuthStateChanged (w3\<lparr>authListener := True\<rparr>);
                  w5 = emit (Console_log ''Auth state change listener added'') w4
              in case restore_start w5 of
                   (p, w6) \<Rightarrow> (Inr [Persistence_reaction, Restoring p], w6)))"

section \<open>Runs\<close>







text \<open>
  What can happen to a constructed manager: a call of one of its methods, an auth-state
  change of the provider, which reaches \<^verbatim>\<open>handleAuthStateChange\<close> as long as the
  callback is subscribed, or the event loop resuming a task.
\<close>

datatype op =
    Op_restoreSession
  | Op_getCurrentUser
  | Op_authStateChanged "User option"
  | Op_signInWithCustomToken string
  | Op_signOut
  | Op_dispose
  | Op_resume task

fun step :: "firebase \<Rightarrow> op \<Rightarrow> world \<Rightarrow> world" where
  "step fb Op_restoreSession w = snd (restoreSession fb w)"
| "step fb Op_getCurrentUser w = w"
| "step fb (Op_authStateChanged user) w =
     (if authListener w then snd (handleAuthStateChange user w) else w)"
| "step fb (Op_signInWithCustomToken token) w = snd (signInWithCustomToken fb token w)"
| "step fb Op_signOut w = snd (signOut fb w)"
| "step fb Op_dispose w = dispose w"
| "step fb (Op_resume t) w = snd (resume fb t w)"

fun run :: "(firebase \<times> op) list \<Rightarrow> world \<Rightarrow> world" where
  "run [] w = w"
| "run ((fb, c) # cs) w = run cs (step fb c w)"

section \<open>Reading the trace\<close>

text \<open>The effects an operation added, taking \<open>w\<close> to \<open>w'\<close>.\<close>

definition since :: "world \<Rightarrow> world \<Rightarrow> effect list" where
  "since w w' = drop (length (effects w)) (effects w')"

fun is_console :: "effect \<Rightarrow> bool" where
  "is_console (Console_log _) = True"
| "is_console (Console_error _ _) = True"
| "is_console _ = False"

text \<open>The calls among the effects: everything but console output.\<close>

definition calls :: "effect list \<Rightarrow> effect list" where
  "calls es = filter (\<lambda>e. \<not> is_console e) es"

text \<open>The tokens of the provider sign-ins among the effects, in order.\<close>

fun signIn_tokens :: "effect list \<Rightarrow> string list" where
  "signIn_tokens [] = []"
| "signIn_tokens (Fb_signInWithCustomToken t # es) = t # signIn_tokens es"
| "signIn_tokens (_ # es) = signIn_tokens es"

text \<open>The arguments of the \<^verbatim>\<open>setAuthToken\<close> calls among the effects, in order.\<close>

fun setAuthToken_args :: "effect list \<Rightarrow> string option list" where
  "setAuthToken_args [] = []"
| "setAuthToken_args (Host_setAuthToken v # es) = v # setAuthToken_args es"
| "setAuthToken_args (_ # es) = setAuthToken_args es"

text \<open>The arguments of the \<^verbatim>\<open>setUserInfo\<close> calls among the effects, in order.\<close>

fun setUserInfo_args :: "effect list \<Rightarrow> UserInfo option list" where
  "setUserInfo_args [] = []"
| "setUserInfo_args (Host_setUserInfo v # es) = v # setUserInfo_args es"
| "setUserInfo_args (_ # es) = setUserInfo_args es"

section \<open>Concrete inputs\<close>

definition alice :: User where
  "alice = \<lparr>displayName = Some ''Alice'', email = Some ''a@x.com'', photoURL = None,
             uid = ''u1''\<rparr>"

definition host_empty :: ClineProvider where
  "host_empty = \<lparr>secrets = Map.empty, userInfo = None, posted = 0\<rparr>"

definition host_token :: ClineProvider where
  "host_token = \<lparr>secrets = [''authToken'' \<mapsto> ''abc123''], userInfo = Some (profile alice),
                  posted = 0\<rparr>"

definition host_blank :: ClineProvider where
  "host_blank = \<lparr>secrets = [''authToken'' \<mapsto> []], userInfo = None, posted = 0\<rparr>"

text \<open>A provider whose calls all succeed, and one whose calls all fail but initialisation.\<close>

definition fb_ok :: firebase where
  "fb_ok = \<lparr>initializeApp_error = None, setPersistence_error = None, startup_user = None,
             signIn_result = (\<lambda>token. Inr alice), signOut_error = None\<rparr>"

definition fb_down :: firebase where
  "fb_down = \<lparr>initializeApp_error = None,
               setPersistence_error = Some (FirebaseError ''auth/unsupported-persistence-type''),
               startup_user = None,
               signIn_result = (\<lambda>token. Inl (FirebaseError ''auth/invalid-custom-token'')),
               signOut_error = Some (FirebaseError ''auth/network-request-failed'')\<rparr>"

text \<open>A constructed manager at rest, with the given host reference and current user.\<close>

definition idle :: "ClineProvider option \<Rightarrow> User option \<Rightarrow> world" where
  "idle h u = \<lparr>providerRef = h, currentUser = u, authListener = True, disposables = [],
                effects = []\<rparr>"


section \<open>Frame lemmas\<close>

lemma emit_simps:
  "effects (emit e w) = effects w @ [e]"
  "providerRef (emit e w) = providerRef w"
  "currentUser (emit e w) = currentUser w"
  "authListener (emit e w) = authListener w"
  "disposables (emit e w) = disposables w"
  by (simp_all add: emit_def)

lemma provider_call_simps:
  "effects (provider_call e m w) = effects w @ [e]"
  "providerRef (provider_call e m w) = map_option m (providerRef w)"
  "currentUser (provider_call e m w) = currentUser w"
  "authListener (provider_call e m w) = authListener w"
  "disposables (provider_call e m w) = disposables w"
  by (simp_all add: provider_call_def emit_def)

lemmas op_defs = restoreSession_def handleAuthStateChange_def signInWithCustomToken_def
  signOut_def Let_def emit_simps provider_call_simps

lemmas host_defs = getSecret_def setAuthToken_def setUserInfo_def postStateToWebview_def

lemma signIn_frame:
  "disposables (snd (signInWithCustomToken fb token w)) = disposables w \<and>
   authListener (snd (signInWithCustomToken fb token w)) = authListener w"
  by (cases "signIn_result fb token") (simp_all add: op_defs)

lemma signOut_frame:
  "disposables (snd (signOut fb w)) = disposables w \<and>
   authListener (snd (signOut fb w)) = authListener w"
  by (cases "signOut_error fb") (simp_all add: op_defs)

lemma handleAuthStateChange_frame:
  "disposables (snd (handleAuthStateChange user w)) = disposables w \<and>
   authListener (snd (handleAuthStateChange user w)) = authListener w"
  by (cases "providerRef w"; cases user) (simp_all add: op_defs)

lemma restoreSession_frame:
  "disposables (snd (restoreSession fb w)) = disposables w \<and>
   authListener (snd (restoreSession fb w)) = authListener w"
proof (cases "providerRef w")
  case None
  then show ?thesis by (simp add: op_defs)
next
  case (Some h)
  show ?thesis
  proof (cases "currentUser w")
    case (Some cu)
    with \<open>providerRef w = Some h\<close> show ?thesis by (simp add: op_defs)
  next
    case None
    show ?thesis
    proof (cases "getSecret ''authToken'' h")
      case None
      with \<open>providerRef w = Some h\<close> \<open>currentUser w = None\<close> show ?thesis
        by (simp add: op_defs)
    next
      case (Some token)
      with \<open>providerRef w = Some h\<close> \<open>currentUser w = None\<close> show ?thesis
        by (cases "signIn_result fb token"; cases "signOut_error fb")
           (simp_all add: op_defs)
    qed
  qed
qed

lemma dispose_nothing:
  "disposables w = [] \<Longrightarrow> dispose w = emit (Console_log ''Disposables disposed'') w"
  by (simp add: dispose_def)

lemma dispose_frame:
  "disposables (dispose w) = disposables w \<and> authListener (dispose w) = authListener w"
proof -
  have "disposables (foldl (\<lambda>v d. emit (Disposable_dispose d) v) w ds) = disposables w \<and>
        authListener (foldl (\<lambda>v d. emit (Disposable_dispose d) v) w ds) = authListener w"
    for ds
    by (induction ds arbitrary: w) (simp_all add: emit_simps)
  then show ?thesis by (simp add: dispose_def emit_simps)
qed

lemma restore_start_frame:
  "disposables (snd (restore_start w)) = disposables w \<and>
   authListener (snd (restore_start w)) = authListener w"
  by (cases "providerRef w"; cases "currentUser w")
     (simp_all add: restore_start_def Let_def emit_simps provider_call_simps)

lemma restore_resume_frame:
  "disposables (snd (restore_resume fb p w)) = disposables w \<and>
   authListener (snd (restore_resume fb p w)) = authListener w"
proof (cases p)
  case (Restore_awaits_getSecret storedToken)
  then show ?thesis
    by (cases storedToken) (simp_all add: Let_def emit_simps)
next
  case (Restore_awaits_signIn token)
  then show ?thesis
    by (cases "signIn_result fb token") (simp_all add: Let_def emit_simps provider_call_simps)
next
  case Restore_awaits_signOut
  then show ?thesis
    by (cases "signOut_error fb") (simp_all add: emit_simps)
qed (simp_all add: emit_simps provider_call_simps)

lemma callback_resume_frame:
  "disposables (snd (callback_resume p w)) = disposables w \<and>
   authListener (snd (callback_resume p w)) = authListener w"
  by (cases p) (simp_all add: emit_simps provider_call_simps)

lemma resume_frame:
  "disposables (snd (resume fb t w)) = disposables w \<and>
   authListener (snd (resume fb t w)) = authListener w"
proof (cases t)
  case Persistence_reaction
  then show ?thesis
    by (cases "setPersistence_error fb") (simp_all add: emit_simps)
next
  case Persistence_reacted
  then show ?thesis by simp
next
  case (Restoring p)
  then show ?thesis
    using restore_resume_frame [of fb p w] by (simp add: split_beta)
next
  case (Handling p)
  then show ?thesis
    using callback_resume_frame [of p w] by (simp add: split_beta)
qed

lemma step_frame:
  "disposables (step fb c w) = disposables w \<and> authListener (step fb c w) = authListener w"
  by (cases c)
     (simp_all add: restoreSession_frame handleAuthStateChange_frame signIn_frame signOut_frame
        dispose_frame resume_frame)

lemma run_frame:
  "disposables (run cs w) = disposables w \<and> authListener (run cs w) = authListener w"
proof (induction cs arbitrary: w)
  case Nil
  show ?case by simp
next
  case (Cons a cs)
  obtain fb c where a: "a = (fb, c)" by (cases a)
  show ?case
    using Cons.IH [of "step fb c w"] step_frame [of fb c w] by (simp add: a)
qed

lemma new_shape:
  assumes "new_FirebaseAuthManager fb provider = (Inr ts, w0)"
  shows "disposables w0 = [] \<and> authListener w0"
proof -
  have init: "initializeApp_error fb = None"
    using assms
    by (cases "initializeApp_error fb") (simp_all add: new_FirebaseAuthManager_def Let_def)
  show ?thesis
    using assms init
      restore_start_frame
        [of "emit (Console_log ''Auth state change listener added'')
               (emit Fb_onAuthStateChanged
                  (emit Fb_setPersistence
                     (emit (Console_log ''Firebase app initialized'')
                        (emit Fb_initializeApp
                           \<lparr>providerRef = Some provider, currentUser = None,
                              authListener = False, disposables = [],
                              effects = [Console_log ''Initializing FirebaseAuthManager'']\<rparr>
                         \<lparr>currentUser := startup_user fb\<rparr>))
                   \<lparr>authListener := True\<rparr>))"]
    by (auto simp: new_FirebaseAuthManager_def Let_def emit_simps split: prod.splits)
qed


section \<open>The cut methods\<close>

text \<open>
  Resumed to its end with nothing in between, a cut method is the method run whole.
\<close>

lemma callback_finish_whole:
  "callback_finish 3 (callback_start user w) =
     (Callback_done, snd (handleAuthStateChange user w))"
  by (cases "providerRef w"; cases user)
     (simp_all add: eval_nat_numeral callback_start_def handleAuthStateChange_def Let_def
        emit_simps)

lemma restore_finish_whole:
  "restore_finish fb 5 (restore_start w) = (Restore_done, snd (restoreSession fb w))"
proof (cases "providerRef w")
  case None
  then show ?thesis
    by (simp add: eval_nat_numeral restore_start_def restoreSession_def Let_def emit_simps)
next
  case (Some h)
  show ?thesis
  proof (cases "currentUser w")
    case (Some cu)
    with \<open>providerRef w = Some h\<close> show ?thesis
      by (simp add: eval_nat_numeral restore_start_def restoreSession_def Let_def emit_simps)
  next
    case None
    show ?thesis
    proof (cases "getSecret ''authToken'' h")
      case None
      with \<open>providerRef w = Some h\<close> \<open>currentUser w = None\<close> show ?thesis
        by (simp add: eval_nat_numeral restore_start_def restoreSession_def Let_def emit_simps)
    next
      case (Some token)
      with \<open>providerRef w = Some h\<close> \<open>currentUser w = None\<close> show ?thesis
        by (cases "signIn_result fb token"; cases "signOut_error fb")
           (simp_all add: eval_nat_numeral restore_start_def restoreSession_def
              signInWithCustomToken_def signOut_def Let_def emit_simps)
    qed
  qed
qed





section \<open>Auth-state changes\<close>




text \<open>
  Claim C5. Every invocation of the callback with the host reference alive writes the
  user's profile into host state when a user is present, clears the stored token and the
  profile when none is, and in both cases calls \<^verbatim>\<open>postStateToWebview\<close> afterwards: it
  is the last call of the invocation.
\<close>

theorem handleAuthStateChange_writes_and_posts:
  assumes "providerRef w = Some h"
  shows "fst (handleAuthStateChange user w) = Inr () \<and>
         (\<exists>h'. providerRef (snd (handleAuthStateChange user w)) = Some h' \<and>
            posted h' = Suc (posted h) \<and>
            (case user of
               Some u \<Rightarrow>
                 userInfo h' = Some \<lparr>displayName = displayName u, email = email u,
                                      photoURL = photoURL u\<rparr> \<and>
                 calls (since w (snd (handleAuthStateChange user w))) =
                   [Host_setUserInfo (Some \<lparr>displayName = displayName u, email = email u,
                                             photoURL = photoURL u\<rparr>),
                    Host_postStateToWebview]
             | None \<Rightarrow>
                 getSecret ''authToken'' h' = None \<and> userInfo h' = None \<and>
                 calls (since w (snd (handleAuthStateChange user w))) =
                   [Host_setAuthToken None, Host_setUserInfo None, Host_postStateToWebview]))"
  using assms
  by (cases user) (simp_all add: op_defs host_defs since_def calls_def profile_def)

theorem handleAuthStateChange_writes_and_posts_witness:
  "calls (since (idle (Some host_token) None)
      (snd (handleAuthStateChange (Some alice) (idle (Some host_token) None)))) =
     [Host_setUserInfo (Some \<lparr>displayName = Some ''Alice'', email = Some ''a@x.com'',
                               photoURL = None\<rparr>),
      Host_postStateToWebview] \<and>
   calls (since (idle (Some host_token) None)
      (snd (handleAuthStateChange None (idle (Some host_token) None)))) =
     [Host_setAuthToken None, Host_setUserInfo None, Host_postStateToWebview]"
  using handleAuthStateChange_writes_and_posts
          [of "idle (Some host_token) None" host_token "Some alice"]
    handleAuthStateChange_writes_and_posts [of "idle (Some host_token) None" host_token None]
  by (auto simp: idle_def alice_def)

section \<open>Session restoration\<close>

text \<open>
  Claim C2. When the provider already reports a user and the host reference is alive,
  \<^verbatim>\<open>restoreSession\<close> writes exactly that user's display name, email and photo URL into
  host state through \<^verbatim>\<open>setUserInfo\<close> and returns: that is its only call, so the stored
  token is never read and no sign-in is attempted.
\<close>

theorem restoreSession_existing_user:
  assumes "providerRef w = Some h" and "currentUser w = Some cu"
  shows "fst (restoreSession fb w) = Inr () \<and>
         (\<exists>h'. providerRef (snd (restoreSession fb w)) = Some h' \<and>
            userInfo h' = Some \<lparr>displayName = displayName cu, email = email cu,
                                 photoURL = photoURL cu\<rparr>) \<and>
         calls (since w (snd (restoreSession fb w))) =
           [Host_setUserInfo (Some \<lparr>displayName = displayName cu, email = email cu,
                                     photoURL = photoURL cu\<rparr>)] \<and>
         Host_getSecret ''authToken'' \<notin> set (since w (snd (restoreSession fb w))) \<and>
         signIn_tokens (since w (snd (restoreSession fb w))) = []"
  using assms
  by (simp add: op_defs host_defs since_def calls_def profile_def)

theorem restoreSession_existing_user_witness:
  "fst (restoreSession fb_ok (idle (Some host_token) (Some alice))) = Inr () \<and>
   (\<exists>h'. providerRef (snd (restoreSession fb_ok (idle (Some host_token) (Some alice)))) =
            Some h' \<and>
      userInfo h' = Some \<lparr>displayName = Some ''Alice'', email = Some ''a@x.com'',
                           photoURL = None\<rparr>) \<and>
   calls (since (idle (Some host_token) (Some alice))
      (snd (restoreSession fb_ok (idle (Some host_token) (Some alice))))) =
     [Host_setUserInfo (Some \<lparr>displayName = Some ''Alice'', email = Some ''a@x.com'',
                               photoURL = None\<rparr>)]"
  using restoreSession_existing_user
          [of "idle (Some host_token) (Some alice)" host_token alice fb_ok]
  by (simp add: idle_def alice_def)

text \<open>
  Claim C3, as stated: when the provider reports no user and \<^verbatim>\<open>getSecret("authToken")\<close>
  returns a present token, \<^verbatim>\<open>restoreSession\<close> signs in exactly once with that token.
  It fails for the empty string, which \<^verbatim>\<open>if (storedToken)\<close> treats as absent: no sign-in
  is attempted.
\<close>

theorem restoreSession_blank_token_counterexample:
  "providerRef (idle (Some host_blank) None) = Some host_blank \<and>
   currentUser (idle (Some host_blank) None) = None \<and>
   getSecret ''authToken'' host_blank = Some [] \<and>
   signIn_tokens (since (idle (Some host_blank) None)
     (snd (restoreSession fb_ok (idle (Some host_blank) None)))) = []"
  by (simp add: op_defs since_def idle_def host_blank_def getSecret_def)

text \<open>
  Claim C3, amended: when the provider reports no user and \<^verbatim>\<open>getSecret("authToken")\<close>
  returns a present, non-empty token, \<^verbatim>\<open>restoreSession\<close> calls the provider sign-in
  exactly once, with exactly that token; and if that sign-in succeeds it makes no
  \<^verbatim>\<open>setAuthToken\<close> call and no \<^verbatim>\<open>setUserInfo\<close> call, and leaves the host state as it
  was.
\<close>

theorem restoreSession_signs_in_once:
  assumes "providerRef w = Some h" and "currentUser w = None"
    and "getSecret ''authToken'' h = Some token" and "token \<noteq> []"
  shows "signIn_tokens (since w (snd (restoreSession fb w))) = [token] \<and>
         (\<forall>u. signIn_result fb token = Inr u \<longrightarrow>
            fst (restoreSession fb w) = Inr () \<and>
            setAuthToken_args (since w (snd (restoreSession fb w))) = [] \<and>
            setUserInfo_args (since w (snd (restoreSession fb w))) = [] \<and>
            providerRef (snd (restoreSession fb w)) = Some h)"
  using assms
  by (cases "signIn_result fb token"; cases "signOut_error fb")
     (simp_all add: op_defs since_def)

theorem restoreSession_signs_in_once_witness:
  "signIn_tokens (since (idle (Some host_token) None)
     (snd (restoreSession fb_ok (idle (Some host_token) None)))) = [''abc123''] \<and>
   setAuthToken_args (since (idle (Some host_token) None)
     (snd (restoreSession fb_ok (idle (Some host_token) None)))) = [] \<and>
   setUserInfo_args (since (idle (Some host_token) None)
     (snd (restoreSession fb_ok (idle (Some host_token) None)))) = [] \<and>
   providerRef (snd (restoreSession fb_ok (idle (Some host_token) None))) = Some host_token"
  using restoreSession_signs_in_once
          [of "idle (Some host_token) None" host_token "''abc123''" fb_ok]
  by (simp add: idle_def host_token_def getSecret_def fb_ok_def)

text \<open>
  Claim C4. When the sign-in that \<^verbatim>\<open>restoreSession\<close> attempts with a stored token
  fails, then afterwards the stored token is absent, the profile is absent and a provider
  sign-out has been attempted (after the two clearing calls); a failure of that sign-out
  adds a console error and nothing else, and \<^verbatim>\<open>restoreSession\<close> returns normally
  whether the sign-out fails or not.
\<close>

theorem restoreSession_failed_signIn_cleans_up:
  assumes "providerRef w = Some h" and "currentUser w = None"
    and "getSecret ''authToken'' h = Some token" and "token \<noteq> []"
    and "signIn_result fb token = Inl err"
  shows "fst (restoreSession fb w) = Inr () \<and>
         (\<exists>h'. providerRef (snd (restoreSession fb w)) = Some h' \<and>
            getSecret ''authToken'' h' = None \<and> userInfo h' = None) \<and>
         calls (since w (snd (restoreSession fb w))) =
           [Host_getSecret ''authToken'', Fb_signInWithCustomToken token,
            Host_setAuthToken None, Host_setUserInfo None, Fb_signOut] \<and>
         (\<forall>e. signOut_error fb = Some e \<longrightarrow>
            last (since w (snd (restoreSession fb w))) =
              Console_error ''Error during cleanup after failed session restore:'' e)"
proof (cases "signOut_error fb")
  case None
  with assms show ?thesis
    by (simp add: op_defs host_defs since_def calls_def)
next
  case (Some e)
  with assms show ?thesis
    by (simp add: op_defs host_defs since_def calls_def)
qed

theorem restoreSession_failed_signIn_cleans_up_witness:
  "fst (restoreSession fb_down (idle (Some host_token) None)) = Inr () \<and>
   (\<exists>h'. providerRef (snd (restoreSession fb_down (idle (Some host_token) None))) = Some h' \<and>
      getSecret ''authToken'' h' = None \<and> userInfo h' = None) \<and>
   calls (since (idle (Some host_token) None)
     (snd (restoreSession fb_down (idle (Some host_token) None)))) =
     [Host_getSecret ''authToken'', Fb_signInWithCustomToken ''abc123'',
      Host_setAuthToken None, Host_setUserInfo None, Fb_signOut] \<and>
   last (since (idle (Some host_token) None)
     (snd (restoreSession fb_down (idle (Some host_token) None)))) =
     Console_error ''Error during cleanup after failed session restore:''
       (FirebaseError ''auth/network-request-failed'')"
  using restoreSession_failed_signIn_cleans_up
          [of "idle (Some host_token) None" host_token "''abc123''" fb_down
              "FirebaseError ''auth/invalid-custom-token''"]
  by (simp add: idle_def host_token_def getSecret_def fb_down_def)

section \<open>Explicit sign-in and sign-out\<close>

text \<open>
  Claim C6. \<^verbatim>\<open>signInWithCustomToken(token)\<close> and \<^verbatim>\<open>signOut()\<close> each make the
  provider call and nothing else, and their outcome is the provider's: a failure of the
  provider is the failure of the operation. Neither touches the host state; in particular
  a failing \<^verbatim>\<open>signOut()\<close> clears nothing.
\<close>

theorem explicit_operations_delegate:
  "fst (signInWithCustomToken fb token w) =
     (case signIn_result fb token of Inl e \<Rightarrow> Inl e | Inr u \<Rightarrow> Inr ()) \<and>
   calls (since w (snd (signInWithCustomToken fb token w))) = [Fb_signInWithCustomToken token] \<and>
   providerRef (snd (signInWithCustomToken fb token w)) = providerRef w \<and>
   fst (signOut fb w) = (case signOut_error fb of Some e \<Rightarrow> Inl e | None \<Rightarrow> Inr ()) \<and>
   calls (since w (snd (signOut fb w))) = [Fb_signOut] \<and>
   providerRef (snd (signOut fb w)) = providerRef w"
  by (cases "signIn_result fb token"; cases "signOut_error fb")
     (simp_all add: op_defs since_def calls_def)

theorem explicit_operations_delegate_witness:
  "fst (signInWithCustomToken fb_down ''abc123'' (idle (Some host_token) (Some alice))) =
     Inl (FirebaseError ''auth/invalid-custom-token'') \<and>
   fst (signOut fb_down (idle (Some host_token) (Some alice))) =
     Inl (FirebaseError ''auth/network-request-failed'') \<and>
   calls (since (idle (Some host_token) (Some alice))
     (snd (signOut fb_down (idle (Some host_token) (Some alice))))) = [Fb_signOut] \<and>
   providerRef (snd (signOut fb_down (idle (Some host_token) (Some alice)))) = Some host_token"
  using explicit_operations_delegate
          [of fb_down "''abc123''" "idle (Some host_token) (Some alice)"]
  by (simp add: fb_down_def idle_def)

text \<open>
  Claim C7, as stated: after every sign-in that succeeds, \<^verbatim>\<open>setAuthToken\<close> has been
  called with the token and the persisted token is present. It fails: a successful
  \<^verbatim>\<open>signInWithCustomToken("abc123")\<close> on a host without a stored token makes no
  \<^verbatim>\<open>setAuthToken\<close> call and leaves the host without one.
\<close>

theorem signIn_leaves_token_absent_counterexample:
  "fst (signInWithCustomToken fb_ok ''abc123'' (idle (Some host_empty) None)) = Inr () \<and>
   setAuthToken_args (since (idle (Some host_empty) None)
     (snd (signInWithCustomToken fb_ok ''abc123'' (idle (Some host_empty) None)))) = [] \<and>
   map_option (getSecret ''authToken'')
     (providerRef (snd (signInWithCustomToken fb_ok ''abc123'' (idle (Some host_empty) None)))) =
     Some None"
  by (simp add: op_defs since_def idle_def host_empty_def fb_ok_def getSecret_def)

text \<open>
  Claim C7, amended: on a successful sign-in the manager does not write the stored token.
  A successful \<^verbatim>\<open>signInWithCustomToken\<close> makes no \<^verbatim>\<open>setAuthToken\<close> call and leaves
  the host state as it was, so does a \<^verbatim>\<open>restoreSession\<close> whose sign-in succeeds, and the
  auth-state callback for the signed-in user makes no \<^verbatim>\<open>setAuthToken\<close> call and leaves
  the stored token as it was.
\<close>

theorem signIn_success_writes_no_token:
  "(fst (signInWithCustomToken fb token w) = Inr () \<longrightarrow>
      setAuthToken_args (since w (snd (signInWithCustomToken fb token w))) = [] \<and>
      providerRef (snd (signInWithCustomToken fb token w)) = providerRef w) \<and>
   (signIn_tokens (since w (snd (restoreSession fb w))) = [token] \<and>
    signIn_result fb token = Inr u \<longrightarrow>
      setAuthToken_args (since w (snd (restoreSession fb w))) = [] \<and>
      providerRef (snd (restoreSession fb w)) = providerRef w) \<and>
   setAuthToken_args (since w (snd (handleAuthStateChange (Some v) w))) = [] \<and>
   map_option (getSecret ''authToken'')
     (providerRef (snd (handleAuthStateChange (Some v) w))) =
     map_option (getSecret ''authToken'') (providerRef w)"
proof (intro conjI impI)
  show "setAuthToken_args (since w (snd (signInWithCustomToken fb token w))) = []"
    by (cases "signIn_result fb token") (simp_all add: op_defs since_def)
  show "providerRef (snd (signInWithCustomToken fb token w)) = providerRef w"
    by (cases "signIn_result fb token") (simp_all add: op_defs since_def)
next
  assume a: "signIn_tokens (since w (snd (restoreSession fb w))) = [token] \<and>
             signIn_result fb token = Inr u"
  have "setAuthToken_args (since w (snd (restoreSession fb w))) = [] \<and>
        providerRef (snd (restoreSession fb w)) = providerRef w"
  proof (cases "providerRef w")
    case None
    with a show ?thesis by (simp add: op_defs since_def)
  next
    case (Some h)
    show ?thesis
    proof (cases "currentUser w")
      case (Some cu)
      with a \<open>providerRef w = Some h\<close> show ?thesis by (simp add: op_defs since_def)
    next
      case None
      show ?thesis
      proof (cases "getSecret ''authToken'' h")
        case None
        with a \<open>providerRef w = Some h\<close> \<open>currentUser w = None\<close> show ?thesis
          by (simp add: op_defs since_def)
      next
        case (Some stored)
        show ?thesis
        proof (cases "stored = []")
          case True
          with a Some \<open>providerRef w = Some h\<close> \<open>currentUser w = None\<close> show ?thesis
            by (simp add: op_defs since_def)
        next
          case False
          have "signIn_tokens (since w (snd (restoreSession fb w))) = [stored]"
            using False Some \<open>providerRef w = Some h\<close> \<open>currentUser w = None\<close>
            by (cases "signIn_result fb stored"; cases "signOut_error fb")
               (simp_all add: op_defs since_def)
          with a have "stored = token" by simp
          with a False Some \<open>providerRef w = Some h\<close> \<open>currentUser w = None\<close> show ?thesis
            by (simp add: op_defs since_def)
        qed
      qed
    qed
  qed
  then show "setAuthToken_args (since w (snd (restoreSession fb w))) = []"
    and "providerRef (snd (restoreSession fb w)) = providerRef w"
    by simp_all
next
  show "setAuthToken_args (since w (snd (handleAuthStateChange (Some v) w))) = []"
    by (cases "providerRef w") (simp_all add: op_defs since_def)
  show "map_option (getSecret ''authToken'')
          (providerRef (snd (handleAuthStateChange (Some v) w))) =
        map_option (getSecret ''authToken'') (providerRef w)"
    by (cases "providerRef w") (simp_all add: op_defs host_defs)
qed

theorem signIn_success_writes_no_token_witness:
  "setAuthToken_args (since (idle (Some host_token) None)
     (snd (signInWithCustomToken fb_ok ''abc123'' (idle (Some host_token) None)))) = [] \<and>
   providerRef (snd (signInWithCustomToken fb_ok ''abc123'' (idle (Some host_token) None))) =
     Some host_token \<and>
   setAuthToken_args (since (idle (Some host_token) None)
     (snd (restoreSession fb_ok (idle (Some host_token) None)))) = [] \<and>
   providerRef (snd (restoreSession fb_ok (idle (Some host_token) None))) = Some host_token \<and>
   setAuthToken_args (since (idle (Some host_token) None)
     (snd (handleAuthStateChange (Some alice) (idle (Some host_token) None)))) = [] \<and>
   map_option (getSecret ''authToken'')
     (providerRef (snd (handleAuthStateChange (Some alice) (idle (Some host_token) None)))) =
     Some (Some ''abc123'')"
proof -
  have ok: "fst (signInWithCustomToken fb_ok ''abc123'' (idle (Some host_token) None)) = Inr ()"
    by (simp add: op_defs fb_ok_def)
  have once: "signIn_tokens (since (idle (Some host_token) None)
                (snd (restoreSession fb_ok (idle (Some host_token) None)))) = [''abc123'']"
    by (simp add: op_defs since_def idle_def host_token_def getSecret_def fb_ok_def)
  have res: "signIn_result fb_ok ''abc123'' = Inr alice"
    by (simp add: fb_ok_def)
  show ?thesis
    using signIn_success_writes_no_token
            [of fb_ok "''abc123''" "idle (Some host_token) None" alice alice] ok once res
    by (simp add: idle_def host_token_def getSecret_def)
qed

section \<open>A lost host reference\<close>

text \<open>
  Claim C8. When the weak host reference no longer resolves, \<^verbatim>\<open>restoreSession\<close> and
  the auth-state callback are silent no-ops: they return normally, make no call of the host
  or of the provider (no secret read or write, no sign-in, no sign-out), and change nothing
  but the console.
\<close>

theorem lost_reference_noop:
  assumes "providerRef w = None"
  shows "fst (restoreSession fb w) = Inr () \<and>
         calls (since w (snd (restoreSession fb w))) = [] \<and>
         providerRef (snd (restoreSession fb w)) = None \<and>
         currentUser (snd (restoreSession fb w)) = currentUser w \<and>
         authListener (snd (restoreSession fb w)) = authListener w \<and>
         disposables (snd (restoreSession fb w)) = disposables w \<and>
         fst (handleAuthStateChange user w) = Inr () \<and>
         calls (since w (snd (handleAuthStateChange user w))) = [] \<and>
         providerRef (snd (handleAuthStateChange user w)) = None \<and>
         currentUser (snd (handleAuthStateChange user w)) = currentUser w \<and>
         authListener (snd (handleAuthStateChange user w)) = authListener w \<and>
         disposables (snd (handleAuthStateChange user w)) = disposables w"
  using assms
  by (simp add: op_defs since_def calls_def)

theorem lost_reference_noop_witness:
  "fst (restoreSession fb_ok (idle None (Some alice))) = Inr () \<and>
   calls (since (idle None (Some alice)) (snd (restoreSession fb_ok (idle None (Some alice))))) =
     [] \<and>
   fst (handleAuthStateChange None (idle None (Some alice))) = Inr () \<and>
   calls (since (idle None (Some alice))
     (snd (handleAuthStateChange None (idle None (Some alice))))) = []"
  using lost_reference_noop [of "idle None (Some alice)" fb_ok None]
  by (simp add: idle_def)

section \<open>Construction and disposal\<close>

text \<open>
  Claim C9. A failure of \<^verbatim>\<open>setPersistence\<close> during construction is caught and logged
  only. The constructor returns normally, having registered the auth-state listener and
  started the restoration, which is left suspended at its first \<^verbatim>\<open>await\<close>; the
  rejection reaches the \<^verbatim>\<open>catch\<close> handler, which the constructor leaves to the event
  loop and which, whenever it runs, adds one console error and nothing else.
\<close>

theorem persistence_failure_logged_only:
  assumes "initializeApp_error fb = None" and "setPersistence_error fb = Some e"
  shows "(\<exists>p. fst (new_FirebaseAuthManager fb provider) =
                Inr [Persistence_reaction, Restoring p] \<and> p \<noteq> Restore_done) \<and>
         authListener (snd (new_FirebaseAuthManager fb provider)) \<and>
         take 7 (effects (snd (new_FirebaseAuthManager fb provider))) =
           [Console_log ''Initializing FirebaseAuthManager'', Fb_initializeApp,
            Console_log ''Firebase app initialized'', Fb_setPersistence,
            Fb_onAuthStateChanged, Console_log ''Auth state change listener added'',
            Console_log ''Attempting to restore session''] \<and>
         resume fb Persistence_reaction w =
           (Persistence_reacted, emit (Console_error ''Error setting persistence:'' e) w) \<and>
         calls (since w (snd (resume fb Persistence_reaction w))) = []"
proof -
  have later: "resume fb Persistence_reaction w =
                 (Persistence_reacted, emit (Console_error ''Error setting persistence:'' e) w)"
    using assms(2) by simp
  have quiet: "calls (since w (snd (resume fb Persistence_reaction w))) = []"
    using assms(2) by (simp add: since_def calls_def emit_simps)
  have body: "(\<exists>p. fst (new_FirebaseAuthManager fb provider) =
                 Inr [Persistence_reaction, Restoring p] \<and> p \<noteq> Restore_done) \<and>
         authListener (snd (new_FirebaseAuthManager fb provider)) \<and>
         take 7 (effects (snd (new_FirebaseAuthManager fb provider))) =
           [Console_log ''Initializing FirebaseAuthManager'', Fb_initializeApp,
            Console_log ''Firebase app initialized'', Fb_setPersistence,
            Fb_onAuthStateChanged, Console_log ''Auth state change listener added'',
            Console_log ''Attempting to restore session'']"
    using assms(1)
    by (cases "startup_user fb")
       (simp_all add: new_FirebaseAuthManager_def restore_start_def Let_def emit_simps
          provider_call_simps eval_nat_numeral)
  show ?thesis
    using body later quiet by simp
qed

theorem persistence_failure_logged_only_witness:
  "fst (new_FirebaseAuthManager fb_down host_token) =
     Inr [Persistence_reaction, Restoring (Restore_awaits_getSecret (Some ''abc123''))] \<and>
   authListener (snd (new_FirebaseAuthManager fb_down host_token)) \<and>
   take 7 (effects (snd (new_FirebaseAuthManager fb_down host_token))) =
     [Console_log ''Initializing FirebaseAuthManager'', Fb_initializeApp,
      Console_log ''Firebase app initialized'', Fb_setPersistence,
      Fb_onAuthStateChanged, Console_log ''Auth state change listener added'',
      Console_log ''Attempting to restore session''] \<and>
   resume fb_down Persistence_reaction (snd (new_FirebaseAuthManager fb_down host_token)) =
     (Persistence_reacted,
      emit (Console_error ''Error setting persistence:''
              (FirebaseError ''auth/unsupported-persistence-type''))
        (snd (new_FirebaseAuthManager fb_down host_token)))"
proof -
  have init: "initializeApp_error fb_down = None"
    by (simp add: fb_down_def)
  have pers: "setPersistence_error fb_down =
                Some (FirebaseError ''auth/unsupported-persistence-type'')"
    by (simp add: fb_down_def)
  have tasks: "fst (new_FirebaseAuthManager fb_down host_token) =
     Inr [Persistence_reaction, Restoring (Restore_awaits_getSecret (Some ''abc123''))]"
    by (simp add: new_FirebaseAuthManager_def restore_start_def Let_def emit_simps
          fb_down_def host_token_def getSecret_def)
  from persistence_failure_logged_only
         [OF init pers, of host_token "snd (new_FirebaseAuthManager fb_down host_token)"]
    tasks
  show ?thesis by blast
qed

text \<open>
  Claim C10. The disposables list is empty when the constructor returns and no operation
  appends to it, so after any sequence of operations \<^verbatim>\<open>dispose()\<close> disposes nothing:
  it only logs. The auth-state subscription made by the constructor is therefore still in
  place after \<^verbatim>\<open>dispose()\<close>, and the next auth-state change still runs the callback.
\<close>

theorem disposables_stay_empty:
  assumes "new_FirebaseAuthManager fb provider = (Inr ts, w0)"
  shows "disposables w0 = [] \<and> disposables (run cs w0) = [] \<and>
         dispose (run cs w0) = emit (Console_log ''Disposables disposed'') (run cs w0) \<and>
         calls (since (run cs w0) (dispose (run cs w0))) = [] \<and>
         authListener (dispose (run cs w0)) \<and>
         step fb' (Op_authStateChanged user) (dispose (run cs w0)) =
           snd (handleAuthStateChange user (dispose (run cs w0)))"
proof -
  have w0: "disposables w0 = []" "authListener w0"
    using new_shape [OF assms] by simp_all
  have r: "disposables (run cs w0) = []" "authListener (run cs w0)"
    using run_frame [of cs w0] w0 by simp_all
  have d: "dispose (run cs w0) = emit (Console_log ''Disposables disposed'') (run cs w0)"
    using r(1) by (rule dispose_nothing)
  show ?thesis
    using w0 r d by (simp add: since_def calls_def emit_simps)
qed

theorem disposables_stay_empty_witness:
  "disposables (run [(fb_ok, Op_dispose), (fb_down, Op_signOut)]
     (snd (new_FirebaseAuthManager fb_ok host_token))) = [] \<and>
   authListener (dispose (run [(fb_ok, Op_dispose), (fb_down, Op_signOut)]
     (snd (new_FirebaseAuthManager fb_ok host_token)))) \<and>
   calls (since (run [(fb_ok, Op_dispose), (fb_down, Op_signOut)]
            (snd (new_FirebaseAuthManager fb_ok host_token)))
     (dispose (run [(fb_ok, Op_dispose), (fb_down, Op_signOut)]
        (snd (new_FirebaseAuthManager fb_ok host_token))))) = []"
proof -
  have "fst (new_FirebaseAuthManager fb_ok host_token) =
          Inr [Persistence_reaction, Restoring (Restore_awaits_getSecret (Some ''abc123''))]"
    by (simp add: new_FirebaseAuthManager_def restore_start_def Let_def emit_simps
          fb_ok_def host_token_def getSecret_def)
  then have "new_FirebaseAuthManager fb_ok host_token =
               (Inr [Persistence_reaction, Restoring (Restore_awaits_getSecret (Some ''abc123''))],
                snd (new_FirebaseAuthManager fb_ok host_token))"
    by (simp add: prod_eq_iff)
  from disposables_stay_empty [OF this, of "[(fb_ok, Op_dispose), (fb_down, Op_signOut)]"]
  show ?thesis by blast
qed

end
